theory Spec2Isabelle
  imports Complex_Main "HOL-Library.Sublist" "HOL-Library.Multiset"
begin

section \<open>JavaScript values and numbers\<close>

text \<open>
  A JavaScript number is a finite double, one of the two infinities, or NaN. Finite
  doubles are embedded in the reals and arithmetic on them is exact (no rounding, no
  overflow, no signed zero); the special values follow IEEE 754 as JavaScript does.
\<close>

datatype jsnum = Fin real | PInf | NInf | NaN

text \<open>The scalar values a JSON body, a database row or a local variable holds.\<close>

datatype jsval = JUndefined | JNull | JBool bool | JNum jsnum | JStr string

text \<open>\<^verbatim>\<open>!!v\<close>: the truthiness every \<^verbatim>\<open>if (!v)\<close> and \<^verbatim>\<open>v || d\<close> of the source uses.\<close>

fun truthy :: "jsval \<Rightarrow> bool" where
  "truthy JUndefined = False"
| "truthy JNull = False"
| "truthy (JBool b) = b"
| "truthy (JNum (Fin r)) = (r \<noteq> 0)"
| "truthy (JNum NaN) = False"
| "truthy (JNum PInf) = True"
| "truthy (JNum NInf) = True"
| "truthy (JStr s) = (s \<noteq> [])"

text \<open>\<^verbatim>\<open>v == null\<close> holds of null and undefined only.\<close>

fun isNullish :: "jsval \<Rightarrow> bool" where
  "isNullish JUndefined = True"
| "isNullish JNull = True"
| "isNullish (JBool b) = False"
| "isNullish (JNum n) = False"
| "isNullish (JStr s) = False"

text \<open>
  ToNumber, the coercion of every arithmetic operator. The conversion of a string is the
  runtime's StringToNumber, taken as the parameter \<open>s2n\<close>.
\<close>

fun toNumber :: "(string \<Rightarrow> jsnum) \<Rightarrow> jsval \<Rightarrow> jsnum" where
  "toNumber s2n JUndefined = NaN"
| "toNumber s2n JNull = Fin 0"
| "toNumber s2n (JBool b) = Fin (if b then 1 else 0)"
| "toNumber s2n (JNum n) = n"
| "toNumber s2n (JStr s) = s2n s"

subsection \<open>Arithmetic with the special values\<close>

fun jadd :: "jsnum \<Rightarrow> jsnum \<Rightarrow> jsnum" where
  "jadd NaN y = NaN"
| "jadd x NaN = NaN"
| "jadd (Fin a) (Fin b) = Fin (a + b)"
| "jadd (Fin a) PInf = PInf"
| "jadd (Fin a) NInf = NInf"
| "jadd PInf NInf = NaN"
| "jadd PInf y = PInf"
| "jadd NInf PInf = NaN"
| "jadd NInf y = NInf"

fun jsub :: "jsnum \<Rightarrow> jsnum \<Rightarrow> jsnum" where
  "jsub NaN y = NaN"
| "jsub x NaN = NaN"
| "jsub (Fin a) (Fin b) = Fin (a - b)"
| "jsub (Fin a) PInf = NInf"
| "jsub (Fin a) NInf = PInf"
| "jsub PInf PInf = NaN"
| "jsub PInf y = PInf"
| "jsub NInf NInf = NaN"
| "jsub NInf y = NInf"

fun jmul :: "jsnum \<Rightarrow> jsnum \<Rightarrow> jsnum" where
  "jmul NaN y = NaN"
| "jmul x NaN = NaN"
| "jmul (Fin a) (Fin b) = Fin (a * b)"
| "jmul (Fin a) PInf = (if a = 0 then NaN else if 0 < a then PInf else NInf)"
| "jmul (Fin a) NInf = (if a = 0 then NaN else if 0 < a then NInf else PInf)"
| "jmul PInf (Fin b) = (if b = 0 then NaN else if 0 < b then PInf else NInf)"
| "jmul NInf (Fin b) = (if b = 0 then NaN else if 0 < b then NInf else PInf)"
| "jmul PInf PInf = PInf"
| "jmul PInf NInf = NInf"
| "jmul NInf PInf = NInf"
| "jmul NInf NInf = PInf"

text \<open>Division; a zero divisor is the positive zero.\<close>

fun jdiv :: "jsnum \<Rightarrow> jsnum \<Rightarrow> jsnum" where
  "jdiv NaN y = NaN"
| "jdiv x NaN = NaN"
| "jdiv (Fin a) (Fin b) =
     (if b = 0 then (if a = 0 then NaN else if 0 < a then PInf else NInf) else Fin (a / b))"
| "jdiv (Fin a) y = Fin 0"
| "jdiv PInf (Fin b) = (if b < 0 then NInf else PInf)"
| "jdiv NInf (Fin b) = (if b < 0 then PInf else NInf)"
| "jdiv x y = NaN"

fun jsin :: "jsnum \<Rightarrow> jsnum" where
  "jsin (Fin a) = Fin (sin a)"
| "jsin x = NaN"

fun jcos :: "jsnum \<Rightarrow> jsnum" where
  "jcos (Fin a) = Fin (cos a)"
| "jcos x = NaN"

fun jsqrt :: "jsnum \<Rightarrow> jsnum" where
  "jsqrt (Fin a) = (if a < 0 then NaN else Fin (sqrt a))"
| "jsqrt PInf = PInf"
| "jsqrt x = NaN"

text \<open>\<^verbatim>\<open>Math.atan2(y, x)\<close>: the angle of the point \<open>(x, y)\<close>, in \<open>(-\<pi>, \<pi>]\<close>.\<close>

definition atan2 :: "real \<Rightarrow> real \<Rightarrow> real" where
  "atan2 y x =
     (if 0 < x then arctan (y / x)
      else if x < 0 then (if 0 \<le> y then arctan (y / x) + pi else arctan (y / x) - pi)
      else if 0 < y then pi / 2
      else if y < 0 then - (pi / 2)
      else 0)"

fun jatan2 :: "jsnum \<Rightarrow> jsnum \<Rightarrow> jsnum" where
  "jatan2 NaN x = NaN"
| "jatan2 y NaN = NaN"
| "jatan2 (Fin y) (Fin x) = Fin (atan2 y x)"
| "jatan2 (Fin y) PInf = Fin 0"
| "jatan2 (Fin y) NInf = Fin (if 0 \<le> y then pi else - pi)"
| "jatan2 PInf (Fin x) = Fin (pi / 2)"
| "jatan2 NInf (Fin x) = Fin (- (pi / 2))"
| "jatan2 PInf PInf = Fin (pi / 4)"
| "jatan2 PInf NInf = Fin (3 * pi / 4)"
| "jatan2 NInf PInf = Fin (- (pi / 4))"
| "jatan2 NInf NInf = Fin (- (3 * pi / 4))"

section \<open>The distance of the deterministic ranking\<close>

text \<open>
  \<^verbatim>\<open>const toRad = (v) => (v * Math.PI) / 180;\<close>
\<close>

definition toRad :: "jsnum \<Rightarrow> jsnum" where
  "toRad v = jdiv (jmul v (Fin pi)) (Fin 180)"

text \<open>
  \<^verbatim>\<open>distanceKm(lat1, lon1, lat2, lon2)\<close> of \<^verbatim>\<open>findProducts\<close>: positive infinity when a
  coordinate is null or undefined, the haversine formula with radius 6371 otherwise.
\<close>

definition distanceKm :: "(string \<Rightarrow> jsnum) \<Rightarrow> jsval \<Rightarrow> jsval \<Rightarrow> jsval \<Rightarrow> jsval \<Rightarrow> jsnum" where
  "distanceKm s2n lat1 lon1 lat2 lon2 =
     (if isNullish lat1 \<or> isNullish lon1 \<or> isNullish lat2 \<or> isNullish lon2 then PInf
      else
        let R = Fin 6371;
            dLat = toRad (jsub (toNumber s2n lat2) (toNumber s2n lat1));
            dLon = toRad (jsub (toNumber s2n lon2) (toNumber s2n lon1));
            a = jadd (jmul (jsin (jdiv dLat (Fin 2))) (jsin (jdiv dLat (Fin 2))))
                     (jmul (jmul (jmul (jcos (toRad (toNumber s2n lat1)))
                                       (jcos (toRad (toNumber s2n lat2))))
                                 (jsin (jdiv dLon (Fin 2))))
                           (jsin (jdiv dLon (Fin 2))));
            c = jmul (Fin 2) (jatan2 (jsqrt a) (jsqrt (jsub (Fin 1) a)))
        in jmul R c)"

section \<open>Strings\<close>

text \<open>
  Strings are lists of characters; the whitespace \<^verbatim>\<open>trim\<close> removes is the ASCII
  whitespace (tab, line feed, vertical tab, form feed, carriage return, space).
\<close>

definition isSpace :: "char \<Rightarrow> bool" where
  "isSpace c = (c \<in> set [CHR 0x09, CHR 0x0A, CHR 0x0B, CHR 0x0C, CHR 0x0D, CHR 0x20])"

definition trim :: "string \<Rightarrow> string" where
  "trim s = rev (dropWhile isSpace (rev (dropWhile isSpace s)))"

text \<open>\<^verbatim>\<open>s.replace(/pat/g, "")\<close> for a literal, non-empty pattern.\<close>

function removeAll :: "string \<Rightarrow> string \<Rightarrow> string" where
  "removeAll pat [] = []"
| "removeAll pat (c # cs) =
     (if pat \<noteq> [] \<and> prefix pat (c # cs) then removeAll pat (drop (length pat) (c # cs))
      else c # removeAll pat cs)"
  by pat_completeness auto
termination
  by (relation "measure (\<lambda>(pat, s). length s)") (auto simp: neq_Nil_conv)

text \<open>
  \<^verbatim>\<open>text.replace(/```json/g, "").replace(/```/g, "").trim()\<close>: the code-fence stripping
  before \<^verbatim>\<open>JSON.parse\<close>.
\<close>

definition fence :: string where
  "fence = [CHR 0x60, CHR 0x60, CHR 0x60]"

definition cleanedText :: "string \<Rightarrow> string" where
  "cleanedText text = trim (removeAll fence (removeAll (fence @ ''json'') text))"

text \<open>The decimal digits of a length, as a template literal prints it.\<close>

fun showNat :: "nat \<Rightarrow> string" where
  "showNat n =
     (if n < 10 then [char_of (48 + n)] else showNat (n div 10) @ [char_of (48 + n mod 10)])"

declare showNat.simps [simp del]

text \<open>
  \<^verbatim>\<open>String(v)\<close> and \<^verbatim>\<open>${v}\<close>; the digits of a number are the runtime's
  Number::toString, the parameter \<open>n2s\<close>.
\<close>

fun jsString :: "(jsnum \<Rightarrow> string) \<Rightarrow> jsval \<Rightarrow> string" where
  "jsString n2s JUndefined = ''undefined''"
| "jsString n2s JNull = ''null''"
| "jsString n2s (JBool b) = (if b then ''true'' else ''false'')"
| "jsString n2s (JNum n) = n2s n"
| "jsString n2s (JStr s) = s"

text \<open>A string between double quotes, as the summaries print the query.\<close>

definition quoted :: "string \<Rightarrow> string" where
  "quoted s = [CHR 0x22] @ s @ [CHR 0x22]"

section \<open>Rows, candidates and results\<close>

text \<open>The shop columns joined into a product row (\<^verbatim>\<open>p.shops\<close>, null when there is none).\<close>

record shop_join =
  sj_name :: jsval
  sj_contact_number :: jsval
  sj_email :: jsval
  sj_latitude :: jsval
  sj_longitude :: jsval

record product =
  p_name :: jsval
  p_price :: jsval
  p_rating :: jsval
  p_shop_id :: jsval
  p_shops :: "shop_join option"

text \<open>An element of \<^verbatim>\<open>enriched\<close>.\<close>

record enriched =
  e_product_name :: jsval
  e_price :: jsnum
  e_rating :: jsnum
  e_shop_name :: jsval
  e_shop_contact_number :: jsval
  e_shop_email :: jsval
  e_distance_km :: jsnum

record recommendation =
  rank :: nat
  product_name :: jsval
  price :: jsval
  rating :: jsval
  shop_name :: jsval
  shop_contact_number :: jsval
  shop_email :: jsval
  distance_km :: jsval
  reason :: string

record search_result =
  summary :: string
  recommendations :: "recommendation list"

section \<open>The deterministic ranking of findProducts\<close>

text \<open>\<^verbatim>\<open>safeNumber = (v, d) => (typeof v === 'number' && Number.isFinite(v) ? v : d)\<close>\<close>

fun safeNumber :: "jsval \<Rightarrow> jsnum \<Rightarrow> jsnum" where
  "safeNumber (JNum (Fin r)) d = Fin r"
| "safeNumber v d = d"

definition enrich :: "(string \<Rightarrow> jsnum) \<Rightarrow> jsval \<Rightarrow> jsval \<Rightarrow> product \<Rightarrow> enriched" where
  "enrich s2n latitude longitude p =
     (let dist = distanceKm s2n latitude longitude
                   (case p_shops p of Some s \<Rightarrow> sj_latitude s | None \<Rightarrow> JNull)
                   (case p_shops p of Some s \<Rightarrow> sj_longitude s | None \<Rightarrow> JNull)
      in \<lparr> e_product_name = p_name p,
           e_price = safeNumber (p_price p) PInf,
           e_rating = safeNumber (p_rating p) (Fin 0),
           e_shop_name = (case p_shops p of Some s \<Rightarrow> sj_name s | None \<Rightarrow> JStr ''Unknown Shop''),
           e_shop_contact_number = (case p_shops p of Some s \<Rightarrow> sj_contact_number s | None \<Rightarrow> JNull),
           e_shop_email = (case p_shops p of Some s \<Rightarrow> sj_email s | None \<Rightarrow> JNull),
           e_distance_km = dist \<rparr>)"

text \<open>
  The comparator handed to \<^verbatim>\<open>sort\<close>. \<^verbatim>\<open>byDistance !== 0\<close> holds of NaN too, so the
  difference of two infinite keys is returned as it is.
\<close>

definition rankCompare :: "enriched \<Rightarrow> enriched \<Rightarrow> jsnum" where
  "rankCompare a b =
     (let byDistance = jsub (e_distance_km a) (e_distance_km b) in
      if byDistance \<noteq> Fin 0 then byDistance
      else let byPrice = jsub (e_price a) (e_price b) in
        if byPrice \<noteq> Fin 0 then byPrice
        else jsub (e_rating b) (e_rating a))"

text \<open>
  \<^verbatim>\<open>Array.prototype.sort(cmp)\<close>: a stable sort in which \<open>x\<close> goes after \<open>y\<close> exactly
  when \<open>cmp x y\<close> is positive; a comparator result of NaN counts as zero. It is written
  as the insertion sort, the stable sort every engine agrees with on a consistent
  comparator.
\<close>

fun isPos :: "jsnum \<Rightarrow> bool" where
  "isPos (Fin r) = (0 < r)"
| "isPos PInf = True"
| "isPos NInf = False"
| "isPos NaN = False"

fun insertBy :: "('a \<Rightarrow> 'a \<Rightarrow> jsnum) \<Rightarrow> 'a \<Rightarrow> 'a list \<Rightarrow> 'a list" where
  "insertBy cmp x [] = [x]"
| "insertBy cmp x (y # ys) = (if isPos (cmp x y) then y # insertBy cmp x ys else x # y # ys)"

definition jsSort :: "('a \<Rightarrow> 'a \<Rightarrow> jsnum) \<Rightarrow> 'a list \<Rightarrow> 'a list" where
  "jsSort cmp xs = foldr (insertBy cmp) xs []"

text \<open>
  \<^verbatim>\<open>Number(x.toFixed(2))\<close>: the nearest multiple of 1/100, the larger one on a tie; a
  negative number is rounded as its absolute value, and from \<open>10\<^sup>2\<^sup>1\<close> on the number is
  printed as it is.
\<close>

definition toFixed2 :: "real \<Rightarrow> real" where
  "toFixed2 x =
     (if 10 ^ 21 \<le> \<bar>x\<bar> then x
      else if x < 0 then - (of_int \<lfloor>- x * 100 + 1 / 2\<rfloor> / 100)
      else of_int \<lfloor>x * 100 + 1 / 2\<rfloor> / 100)"

definition toRecommendation :: "nat \<Rightarrow> enriched \<Rightarrow> recommendation" where
  "toRecommendation idx item =
     \<lparr> rank = idx + 1,
       product_name = e_product_name item,
       price = (if e_price item = PInf then JNull else JNum (e_price item)),
       rating = JNum (e_rating item),
       shop_name = e_shop_name item,
       shop_contact_number = e_shop_contact_number item,
       shop_email = e_shop_email item,
       distance_km = (case e_distance_km item of Fin d \<Rightarrow> JNum (Fin (toFixed2 d)) | _ \<Rightarrow> JNull),
       reason = ''Ranked by distance, then price, then rating.'' \<rparr>"

text \<open>\<^verbatim>\<open>enriched.sort(...).slice(0, 3).map((item, idx) => ...)\<close>\<close>

definition ranked :: "enriched list \<Rightarrow> recommendation list" where
  "ranked es =
     (let top = take 3 (jsSort rankCompare es)
      in map (\<lambda>(idx, item). toRecommendation idx item) (zip [0..<length top] top))"

definition deterministic ::
  "(string \<Rightarrow> jsnum) \<Rightarrow> (jsnum \<Rightarrow> string) \<Rightarrow> jsval \<Rightarrow> jsval \<Rightarrow> jsval \<Rightarrow> product list \<Rightarrow> search_result" where
  "deterministic s2n n2s query latitude longitude products =
     (let rs = ranked (map (enrich s2n latitude longitude) products)
      in \<lparr> summary = ''Top '' @ showNat (length rs) @ '' results for '' @ quoted (jsString n2s query)
                       @ '' near you based on distance, price, and rating.'',
           recommendations = rs \<rparr>)"

section \<open>Collaborators\<close>

text \<open>An error object: what a collaborator reports or a call throws.\<close>

datatype err = Err string

text \<open>The \<^verbatim>\<open>{ data, error }\<close> a storage query resolves to.\<close>

record 'a response =
  data :: "'a option"
  error :: "err option"

text \<open>A row of the \<^verbatim>\<open>nearby_shops\<close> procedure; only its id is read.\<close>

record shop_row =
  shop_row_id :: jsval

text \<open>A classification of the local classifier and a detection of the object detector.\<close>

record prediction =
  className :: "string option"
  probability :: jsval

record detection =
  det_class :: "string option"
  score :: jsval

text \<open>The collaborator calls a request makes, in order.\<close>

datatype call =
    NearbyShops jsval jsval
  | ProductsQuery "jsval list" "string option"
  | GenerateContent jsval "product list"
  | VisionGenerate string
  | ClassifyImage string
  | DetectObjects string

text \<open>
  Everything outside the source: the runtime's conversions and \<^verbatim>\<open>JSON.parse\<close>
  (\<open>None\<close> when it throws), the configuration, and what each collaborator answers. The
  text model is asked with a prompt made of the query and the products; a model call
  that throws at any of its three steps is \<open>Inl\<close>. Loading a local model, decoding the
  image and running the model are one outcome each for the classifier and the detector.
\<close>

record 'j world =
  StringToNumber :: "string \<Rightarrow> jsnum"
  NumberToString :: "jsnum \<Rightarrow> string"
  JSON_parse :: "string \<Rightarrow> 'j option"
  USE_LOCAL_RANKING :: bool
  geminiApiKey :: bool
  nearby_shops :: "jsval \<Rightarrow> jsval \<Rightarrow> shop_row list response"
  products_select :: "jsval list \<Rightarrow> string option \<Rightarrow> product list response"
  generateContent :: "jsval \<Rightarrow> product list \<Rightarrow> err + string"
  generateVision :: "string \<Rightarrow> err + string"
  classify :: "string \<Rightarrow> err + prediction list option"
  detect :: "string \<Rightarrow> err + detection list option"

section \<open>findProducts\<close>

text \<open>What \<^verbatim>\<open>findProducts\<close> returns: the parsed reply of the model, or a result it built.\<close>

datatype 'j found = Parsed 'j | Result search_result

definition noShops :: search_result where
  "noShops = \<lparr> summary = ''No shops found near your location.'', recommendations = [] \<rparr>"

text \<open>\<^verbatim>\<open>query && String(query).trim().length > 0\<close>\<close>

definition hasQuery :: "(jsnum \<Rightarrow> string) \<Rightarrow> jsval \<Rightarrow> bool" where
  "hasQuery n2s query = (truthy query \<and> trim (jsString n2s query) \<noteq> [])"

definition noProducts :: "(jsnum \<Rightarrow> string) \<Rightarrow> jsval \<Rightarrow> search_result" where
  "noProducts n2s query =
     (let q = (if hasQuery n2s query then ''matching '' @ quoted (jsString n2s query) @ '' '' else [])
      in \<lparr> summary = ''No products '' @ q @ ''found in nearby shops.'', recommendations = [] \<rparr>)"

text \<open>
  Step 5 and the ranking after it: the model is asked unless local ranking is
  configured; a throwing call and a reply that does not parse both reach the
  deterministic ranking.
\<close>

definition rankProducts ::
  "'j world \<Rightarrow> jsval \<Rightarrow> jsval \<Rightarrow> jsval \<Rightarrow> product list \<Rightarrow> (err + 'j found) \<times> call list" where
  "rankProducts w query latitude longitude products =
     (let local = Result (deterministic (StringToNumber w) (NumberToString w)
                            query latitude longitude products)
      in if \<not> USE_LOCAL_RANKING w then
           (case generateContent w query products of
              Inl aiError \<Rightarrow> (Inr local, [GenerateContent query products])
            | Inr text \<Rightarrow>
                (case JSON_parse w (cleanedText text) of
                   None \<Rightarrow> (Inr local, [GenerateContent query products])
                 | Some j \<Rightarrow> (Inr (Parsed j), [GenerateContent query products])))
         else (Inr local, []))"

text \<open>Step 2 to the end, once the shop lookup has given shops.\<close>

definition productsOfShops ::
  "'j world \<Rightarrow> jsval \<Rightarrow> jsval \<Rightarrow> jsval \<Rightarrow> shop_row list \<Rightarrow> (err + 'j found) \<times> call list" where
  "productsOfShops w query latitude longitude shops =
     (let shopIds = map shop_row_id shops;
          pat = (if hasQuery (NumberToString w) query
                 then Some (''%'' @ jsString (NumberToString w) query @ ''%'')
                 else None);
          productsR = products_select w shopIds pat;
          log2 = [ProductsQuery shopIds pat];
          none = (Inr (Result (noProducts (NumberToString w) query)), log2)
      in (case error productsR of
            Some productsError \<Rightarrow> (Inl productsError, log2)
          | None \<Rightarrow>
              (case data productsR of
                 None \<Rightarrow> none
               | Some products \<Rightarrow>
                   (if products = [] then none
                    else (case rankProducts w query latitude longitude products of
                            (res, log3) \<Rightarrow> (res, log2 @ log3))))))"

definition findProducts ::
  "'j world \<Rightarrow> jsval \<Rightarrow> jsval \<Rightarrow> jsval \<Rightarrow> (err + 'j found) \<times> call list" where
  "findProducts w query latitude longitude =
     (let shopsR = nearby_shops w latitude longitude;
          log1 = [NearbyShops latitude longitude]
      in (case error shopsR of
            Some shopsError \<Rightarrow> (Inl shopsError, log1)
          | None \<Rightarrow>
              (case data shopsR of
                 None \<Rightarrow> (Inr (Result noShops), log1)
               | Some shops \<Rightarrow>
                   (if shops = [] then (Inr (Result noShops), log1)
                    else (case productsOfShops w query latitude longitude shops of
                            (res, log2) \<Rightarrow> (res, log1 @ log2))))))"

section \<open>The search handlers\<close>

record request =
  req_file :: "string option"
  req_query :: jsval
  req_latitude :: jsval
  req_longitude :: jsval

text \<open>A market verdict of the rule-based fallback.\<close>

record verdict =
  prediction :: string
  verdict_reason :: string
  internal_price :: "real option"
  external_price :: real

datatype 'j body =
    ErrorBody string
  | SearchBody "'j found"
  | ImageBody jsval "prediction list" "'j found"
  | TrendParsed 'j
  | TrendBody verdict

record 'j http =
  status :: nat
  payload :: "'j body"

text \<open>
  \<^verbatim>\<open>POST /ai/search\<close>. What \<^verbatim>\<open>findProducts\<close> throws is a storage error, not a
  \<^verbatim>\<open>SyntaxError\<close>, so the status 500 carries the general message.
\<close>

definition aiSearch :: "'j world \<Rightarrow> request \<Rightarrow> 'j http \<times> call list" where
  "aiSearch w req =
     (let query = req_query req; latitude = req_latitude req; longitude = req_longitude req
      in if \<not> truthy query \<or> \<not> truthy latitude \<or> \<not> truthy longitude
         then (\<lparr> status = 400, payload = ErrorBody ''Query, latitude, and longitude are required.'' \<rparr>, [])
         else (case findProducts w query latitude longitude of
                 (Inr results, cs) \<Rightarrow> (\<lparr> status = 200, payload = SearchBody results \<rparr>, cs)
               | (Inl e, cs) \<Rightarrow>
                   (\<lparr> status = 500, payload = ErrorBody ''An internal error occurred.'' \<rparr>, cs)))"

subsection \<open>Resolving an image to a search term\<close>

definition toLowerCase :: "string \<Rightarrow> string" where
  "toLowerCase s =
     map (\<lambda>c. let n = (of_char c :: nat) in if 65 \<le> n \<and> n \<le> 90 then char_of (n + 32) else c) s"

text \<open>\<^verbatim>\<open>t.includes(sub)\<close>\<close>

fun str_includes :: "string \<Rightarrow> string \<Rightarrow> bool" where
  "str_includes [] sub = (sub = [])"
| "str_includes (c # cs) sub = (prefix sub (c # cs) \<or> str_includes cs sub)"

definition mapLabelToQuery :: "string option \<Rightarrow> string option" where
  "mapLabelToQuery text =
     (let t = toLowerCase (case text of None \<Rightarrow> [] | Some s \<Rightarrow> s) in
      if str_includes t ''burger'' \<or> str_includes t ''cheeseburger'' then Some ''Burger''
      else if str_includes t ''pizza'' then Some ''Pizza''
      else if str_includes t ''samosa'' then Some ''Samosa''
      else if str_includes t ''cake'' \<or> str_includes t ''cupcake'' \<or> str_includes t ''pastry'' then Some ''Cake''
      else if str_includes t ''sandwich'' \<or> str_includes t ''submarine'' then Some ''Sandwich''
      else if str_includes t ''donut'' \<or> str_includes t ''doughnut'' then Some ''Donut''
      else if str_includes t ''noodle'' \<or> str_includes t ''pasta'' \<or> str_includes t ''spaghetti'' then Some ''Pasta''
      else if str_includes t ''biryani'' \<or> str_includes t ''rice'' then Some ''Biryani''
      else if str_includes t ''dosa'' then Some ''Dosa''
      else if str_includes t ''idli'' then Some ''Idli''
      else if str_includes t ''vada'' \<or> str_includes t ''vadai'' then Some ''Vada''
      else if str_includes t ''roll'' \<or> str_includes t ''wrap'' then Some ''Roll''
      else if str_includes t ''muffin'' \<or> str_includes t ''cookie'' \<or> str_includes t ''biscuit'' then Some ''Cake''
      else if str_includes t ''ice cream'' \<or> str_includes t ''ice-cream'' then Some ''Ice Cream''
      else if str_includes t ''coffee'' then Some ''Coffee''
      else if str_includes t ''tea'' then Some ''Tea''
      else if str_includes t ''juice'' then Some ''Juice''
      else None)"

definition cocoToQuery :: "string option \<Rightarrow> string option" where
  "cocoToQuery name =
     (let t = toLowerCase (case name of None \<Rightarrow> [] | Some s \<Rightarrow> s) in
      if str_includes t ''cake'' then Some ''Cake''
      else if str_includes t ''pizza'' then Some ''Pizza''
      else if str_includes t ''donut'' \<or> str_includes t ''doughnut'' then Some ''Donut''
      else if str_includes t ''sandwich'' then Some ''Sandwich''
      else if str_includes t ''hot dog'' then Some ''Burger''
      else if str_includes t ''banana'' \<or> str_includes t ''apple'' \<or> str_includes t ''orange'' then Some ''Fruit''
      else None)"

text \<open>
  \<^verbatim>\<open>(predictions && predictions[0] && predictions[0].className) ? predictions[0].className : ''\<close>
\<close>

definition topLabel :: "prediction list option \<Rightarrow> string" where
  "topLabel predictions =
     (case predictions of
        None \<Rightarrow> []
      | Some ps \<Rightarrow> (case ps of [] \<Rightarrow> [] | p # rest \<Rightarrow> (case className p of None \<Rightarrow> [] | Some s \<Rightarrow> s)))"

text \<open>The loop over the predictions: the first label the lexicon maps.\<close>

fun firstLabel :: "prediction list \<Rightarrow> string option" where
  "firstLabel [] = None"
| "firstLabel (p # ps) =
     (case mapLabelToQuery (className p) of Some guess \<Rightarrow> Some guess | None \<Rightarrow> firstLabel ps)"

text \<open>The JavaScript comparison \<^verbatim>\<open><\<close> of two numbers; false when either is NaN.\<close>

fun jless :: "jsnum \<Rightarrow> jsnum \<Rightarrow> bool" where
  "jless (Fin a) (Fin b) = (a < b)"
| "jless (Fin a) PInf = True"
| "jless NInf (Fin b) = True"
| "jless NInf PInf = True"
| "jless x y = False"

text \<open>\<^verbatim>\<open>typeof d.score === 'number' && d.score < 0.3\<close>\<close>

fun lowScore :: "jsval \<Rightarrow> bool" where
  "lowScore (JNum n) = jless n (Fin (3 / 10))"
| "lowScore v = False"

text \<open>The loop over the detections: low scores are skipped, the first mapped class wins.\<close>

fun firstDetection :: "detection list \<Rightarrow> string option" where
  "firstDetection [] = None"
| "firstDetection (d # ds) =
     (if lowScore (score d) then firstDetection ds
      else (case cocoToQuery (det_class d) of Some guess \<Rightarrow> Some guess | None \<Rightarrow> firstDetection ds))"

text \<open>\<^verbatim>\<open>!identifiedFood\<close>: null or the empty string.\<close>

definition noFood :: "string option \<Rightarrow> bool" where
  "noFood f = (f = None \<or> f = Some [])"

text \<open>
  The body of the \<^verbatim>\<open>try\<close> of the local fallback, run to its end or to the statement that
  throws: the error thrown, if any, and the two variables as they stand then. A missing
  \<^verbatim>\<open>className\<close> makes \<^verbatim>\<open>predictions[0].className.split\<close> throw.
\<close>

definition localBody ::
  "'j world \<Rightarrow> string \<Rightarrow> string option \<Rightarrow> (err option \<times> string option \<times> prediction list) \<times> call list" where
  "localBody w img identifiedFood0 =
     (case classify w img of
        Inl e \<Rightarrow> ((Some e, identifiedFood0, []), [ClassifyImage img])
      | Inr predictions \<Rightarrow>
          (let preds = (case predictions of None \<Rightarrow> [] | Some ps \<Rightarrow> ps);
               food1 = mapLabelToQuery (Some (topLabel predictions));
               food2 = (if noFood food1 then firstLabel preds else food1)
           in if \<not> noFood food2 then ((None, food2, preds), [ClassifyImage img])
              else (case detect w img of
                      Inl e \<Rightarrow> ((Some e, food2, preds), [ClassifyImage img, DetectObjects img])
                    | Inr detections \<Rightarrow>
                        (let food3 = firstDetection (case detections of None \<Rightarrow> [] | Some ds \<Rightarrow> ds)
                         in if noFood food3
                            then (case preds of
                                    [] \<Rightarrow> ((None, food3, preds), [ClassifyImage img, DetectObjects img])
                                  | p # rest \<Rightarrow>
                                      (case className p of
                                         None \<Rightarrow> ((Some (Err ''TypeError''), food3, preds),
                                                   [ClassifyImage img, DetectObjects img])
                                       | Some s \<Rightarrow>
                                           ((None, Some (trim (takeWhile (\<lambda>c. c \<noteq> CHR '','') s)), preds),
                                            [ClassifyImage img, DetectObjects img])))
                            else ((None, food3, preds), [ClassifyImage img, DetectObjects img])))))"

text \<open>
  Step 3 of \<^verbatim>\<open>POST /ai/search-by-image\<close>: the vision model when the key is configured,
  then the local fallback when no food is identified. Each \<^verbatim>\<open>catch\<close> drops the error
  and keeps the variables; the result is \<open>Inl\<close> when an error leaves the step.
\<close>

definition resolveImage ::
  "'j world \<Rightarrow> string \<Rightarrow> (err + string option \<times> prediction list) \<times> call list" where
  "resolveImage w img =
     (let (food0, log0) =
            (if \<not> geminiApiKey w then (None, [])
             else (case generateVision w img of
                     Inl aiErr \<Rightarrow> (None, [VisionGenerate img])
                   | Inr text \<Rightarrow> (Some (trim text), [VisionGenerate img])))
      in if noFood food0
         then (case localBody w img food0 of
                 ((thrown, food, preds), log1) \<Rightarrow> (Inr (food, preds), log0 @ log1))
         else (Inr (food0, []), log0))"

text \<open>\<^verbatim>\<open>identifiedFood || null\<close>\<close>

definition detectedLabel :: "string option \<Rightarrow> jsval" where
  "detectedLabel f = (case f of None \<Rightarrow> JNull | Some s \<Rightarrow> (if s = [] then JNull else JStr s))"

text \<open>\<^verbatim>\<open>POST /ai/search-by-image\<close>\<close>

definition searchByImage :: "'j world \<Rightarrow> request \<Rightarrow> 'j http \<times> call list" where
  "searchByImage w req =
     (let latitude = req_latitude req; longitude = req_longitude req in
      case req_file req of
        None \<Rightarrow> (\<lparr> status = 400,
                     payload = ErrorBody (''Image file (as '' @ quoted ''foodImage'' @ '') is required.'') \<rparr>, [])
      | Some img \<Rightarrow>
          (if \<not> truthy latitude \<or> \<not> truthy longitude
           then (\<lparr> status = 400, payload = ErrorBody ''latitude and longitude are required.'' \<rparr>, [])
           else (case resolveImage w img of
                   (Inl e, log1) \<Rightarrow>
                     (case findProducts w (JStr ''Burger'') latitude longitude of
                        (Inr results, log3) \<Rightarrow>
                          (\<lparr> status = 200, payload = SearchBody results \<rparr>, log1 @ log3)
                      | (Inl e', log3) \<Rightarrow>
                          (\<lparr> status = 500,
                             payload = ErrorBody ''An internal error occurred during image search.'' \<rparr>,
                           log1 @ log3))
                 | (Inr (identifiedFood, classifierPredictions), log1) \<Rightarrow>
                     (let searchTerm = (case identifiedFood of None \<Rightarrow> [] | Some s \<Rightarrow> s) in
                      case findProducts w (JStr searchTerm) latitude longitude of
                        (Inr results, log2) \<Rightarrow>
                          (\<lparr> status = 200,
                             payload = ImageBody (detectedLabel identifiedFood)
                                         classifierPredictions results \<rparr>,
                           log1 @ log2)
                      | (Inl e, log2) \<Rightarrow>
                          (case findProducts w (JStr ''Burger'') latitude longitude of
                             (Inr results, log3) \<Rightarrow>
                               (\<lparr> status = 200, payload = SearchBody results \<rparr>, log1 @ log2 @ log3)
                           | (Inl e', log3) \<Rightarrow>
                               (\<lparr> status = 500,
                                  payload = ErrorBody ''An internal error occurred during image search.'' \<rparr>,
                                log1 @ log2 @ log3))))))"


section \<open>The market trend\<close>

text \<open>A row of \<^verbatim>\<open>market_price\<close>, newest first in the query's answer; the price is a number.\<close>

record price_row =
  row_price :: real

text \<open>
  Step 2 of \<^verbatim>\<open>GET /ai/market-trend/:productName\<close>, the same lines in the handler and in
  its fallback: the trend and the most recent price (null when there is no row).
\<close>

definition analyzeTrend :: "price_row list option \<Rightarrow> string \<times> real option" where
  "analyzeTrend prices =
     (case prices of
        None \<Rightarrow> (''Insufficient Data'', None)
      | Some ps \<Rightarrow>
          (if 0 < length ps then
             (if 1 < length ps then
                (let latestPrice = row_price (ps ! 0);
                     olderPrices = drop 1 ps;
                     avgOldPrice = foldl (\<lambda>acc p. acc + row_price p) 0 olderPrices
                                     / real (length olderPrices)
                 in (if avgOldPrice * (105 / 100) < latestPrice then ''Rising''
                     else if latestPrice < avgOldPrice * (95 / 100) then ''Falling''
                     else ''Stable'',
                     Some (row_price (ps ! 0))))
              else (''Insufficient Data'', Some (row_price (ps ! 0))))
           else (''Insufficient Data'', None)))"

text \<open>
  \<^verbatim>\<open>getOrSimulateExternalPrice\<close>; \<open>rnd\<close> is the value \<^verbatim>\<open>Math.random()\<close> returns, in
  \<open>[0, 1)\<close>. The table has the three keys written in the source (a product name that is a
  property every object inherits is not looked at).
\<close>

definition basePrice :: "string \<Rightarrow> real" where
  "basePrice productName =
     (let k = toLowerCase productName in
      if k = ''burger'' then 150 else if k = ''pizza'' then 300 else if k = ''samosa'' then 20
      else 100)"

definition getOrSimulateExternalPrice :: "string \<Rightarrow> real \<Rightarrow> real" where
  "getOrSimulateExternalPrice productName rnd = toFixed2 (basePrice productName + (rnd - 1 / 2) * 20)"

text \<open>
  The rule of the fallback. \<^verbatim>\<open>internalPrice && ...\<close> is false of null and of the
  number 0.
\<close>

definition ruleFallback :: "string \<Rightarrow> real option \<Rightarrow> real \<Rightarrow> verdict" where
  "ruleFallback internalTrend internalPrice externalPrice =
     (let buy = (internalTrend = ''Rising'' \<and>
                 (case internalPrice of None \<Rightarrow> False | Some p \<Rightarrow> p \<noteq> 0 \<and> p < externalPrice));
          sell = (internalTrend = ''Falling'' \<and>
                  (case internalPrice of None \<Rightarrow> False | Some p \<Rightarrow> p \<noteq> 0 \<and> externalPrice < p))
      in if buy
         then \<lparr> prediction = ''BUY'',
                verdict_reason = ''Internal price trending up and below external market.'',
                internal_price = internalPrice, external_price = externalPrice \<rparr>
         else if sell
         then \<lparr> prediction = ''SELL'',
                verdict_reason = ''Internal price trending down and above external market.'',
                internal_price = internalPrice, external_price = externalPrice \<rparr>
         else \<lparr> prediction = ''HOLD'',
                verdict_reason = ''Prices appear stable based on recent internal data.'',
                internal_price = internalPrice, external_price = externalPrice \<rparr>)"

text \<open>
  The \<^verbatim>\<open>catch\<close> of the handler: the rows are read again (an error of the query is not
  looked at), the trend is analysed and the rule applied.
\<close>

definition trendFallback :: "price_row list response \<Rightarrow> real \<Rightarrow> verdict" where
  "trendFallback pricesR externalPrice =
     (case analyzeTrend (data pricesR) of
        (internalTrend, internalPrice) \<Rightarrow> ruleFallback internalTrend internalPrice externalPrice)"

text \<open>
  The handler: \<open>pricesR\<close> and \<open>pricesR'\<close> are the answers of the two reads, \<open>rnd\<close> and
  \<open>rnd'\<close> the two random draws, \<open>reply\<close> what the model call gives.
\<close>

definition marketTrend ::
  "(string \<Rightarrow> 'j option) \<Rightarrow> string \<Rightarrow> price_row list response \<Rightarrow> real \<Rightarrow> (err + string)
     \<Rightarrow> price_row list response \<Rightarrow> real \<Rightarrow> 'j http" where
  "marketTrend parse productName pricesR rnd reply pricesR' rnd' =
     (let fallback = \<lparr> status = 200,
                        payload = TrendBody (trendFallback pricesR'
                                               (getOrSimulateExternalPrice productName rnd')) \<rparr>
      in (case error pricesR of
            Some dbError \<Rightarrow> fallback
          | None \<Rightarrow>
              (case reply of
                 Inl e \<Rightarrow> fallback
               | Inr text \<Rightarrow>
                   (case parse (cleanedText text) of
                      None \<Rightarrow> fallback
                    | Some j \<Rightarrow> \<lparr> status = 200, payload = TrendParsed j \<rparr>))))"


section \<open>Notions the properties are stated with\<close>


text \<open>\<^verbatim>\<open>Number.isFinite\<close>\<close>

fun isFinite :: "jsnum \<Rightarrow> bool" where
  "isFinite (Fin r) = True"
| "isFinite x = False"

text \<open>
  The haversine formula as the specification words it: the great-circle distance in
  kilometres of two points given in degrees, on a sphere of radius 6371.
\<close>

definition haversineA :: "real \<Rightarrow> real \<Rightarrow> real \<Rightarrow> real \<Rightarrow> real" where
  "haversineA lat1 lon1 lat2 lon2 =
     (sin ((lat2 - lat1) * pi / 180 / 2))\<^sup>2
     + cos (lat1 * pi / 180) * cos (lat2 * pi / 180) * (sin ((lon2 - lon1) * pi / 180 / 2))\<^sup>2"

definition haversineKm :: "real \<Rightarrow> real \<Rightarrow> real \<Rightarrow> real \<Rightarrow> real" where
  "haversineKm lat1 lon1 lat2 lon2 =
     6371 * (2 * atan2 (sqrt (haversineA lat1 lon1 lat2 lon2))
                       (sqrt (1 - haversineA lat1 lon1 lat2 lon2)))"



text \<open>The model call fails: it throws, or its reply does not parse after the stripping.\<close>

definition aiFails :: "'j world \<Rightarrow> jsval \<Rightarrow> product list \<Rightarrow> bool" where
  "aiFails w query products =
     (case generateContent w query products of
        Inl e \<Rightarrow> True
      | Inr text \<Rightarrow> JSON_parse w (cleanedText text) = None)"



text \<open>
  Tiers 2 to 4 as the specification words them: the first classifier label the lexicon
  maps; else the first detection of confidence at least 0.3 whose class the second
  lexicon maps; else the first comma-delimited token of the top label.
\<close>

fun firstMapped :: "detection list \<Rightarrow> string option" where
  "firstMapped [] = None"
| "firstMapped (d # ds) =
     (case cocoToQuery (det_class d) of Some guess \<Rightarrow> Some guess | None \<Rightarrow> firstMapped ds)"

definition rawLabel :: "prediction list \<Rightarrow> string option" where
  "rawLabel preds =
     (case preds of
        [] \<Rightarrow> None
      | p # rest \<Rightarrow> map_option (\<lambda>s. trim (takeWhile (\<lambda>c. c \<noteq> CHR '','') s)) (className p))"

definition localTiers :: "prediction list \<Rightarrow> detection list \<Rightarrow> string option" where
  "localTiers preds dets =
     (case firstLabel preds of
        Some term \<Rightarrow> Some term
      | None \<Rightarrow>
          (case firstMapped (filter (\<lambda>d. \<not> lowScore (score d)) dets) of
             Some term \<Rightarrow> Some term
           | None \<Rightarrow> rawLabel preds))"


section \<open>Sample data\<close>

definition sampleShop :: "jsval \<Rightarrow> jsval \<Rightarrow> shop_join" where
  "sampleShop lat lon =
     \<lparr> sj_name = JStr ''Corner Shop'', sj_contact_number = JStr ''9876543210'', sj_email = JNull,
       sj_latitude = lat, sj_longitude = lon \<rparr>"

definition sampleProduct :: "string \<Rightarrow> jsval \<Rightarrow> jsval \<Rightarrow> shop_join option \<Rightarrow> product" where
  "sampleProduct n p r s =
     \<lparr> p_name = JStr n, p_price = p, p_rating = r, p_shop_id = JNum (Fin 1), p_shops = s \<rparr>"

definition sampleCandidate :: "string \<Rightarrow> jsnum \<Rightarrow> jsnum \<Rightarrow> jsnum \<Rightarrow> enriched" where
  "sampleCandidate n d p r =
     \<lparr> e_product_name = JStr n, e_price = p, e_rating = r, e_shop_name = JStr ''Corner Shop'',
       e_shop_contact_number = JNull, e_shop_email = JNull, e_distance_km = d \<rparr>"

text \<open>
  A world with one shop in range and the given products, whose model replies with the
  given outcome and whose parser accepts nothing.
\<close>

definition sampleWorld :: "product list \<Rightarrow> (err + string) \<Rightarrow> unit world" where
  "sampleWorld ps reply =
     \<lparr> StringToNumber = (\<lambda>s. NaN), NumberToString = (\<lambda>n. ''0''), JSON_parse = (\<lambda>s. None),
       USE_LOCAL_RANKING = False, geminiApiKey = True,
       nearby_shops = (\<lambda>lat lon. \<lparr> data = Some [\<lparr> shop_row_id = JNum (Fin 1) \<rparr>], error = None \<rparr>),
       products_select = (\<lambda>ids pat. \<lparr> data = Some ps, error = None \<rparr>),
       generateContent = (\<lambda>q ps. reply),
       generateVision = (\<lambda>img. Inl (Err ''quota'')),
       classify = (\<lambda>img. Inl (Err ''model'')),
       detect = (\<lambda>img. Inl (Err ''model'')) \<rparr>"


text \<open>
  A world in which the vision model fails, the classifier sees a hot dog and the detector
  a doubtful pizza and a sure hot dog; and the request of an image search, whose
  coordinates arrive as strings.
\<close>

definition sampleMenu :: "product list" where
  "sampleMenu = [sampleProduct ''Veg Burger'' (JNum (Fin 120)) (JNum (Fin 4)) None]"

definition hotDogWorld :: "unit world" where
  "hotDogWorld =
     (sampleWorld sampleMenu (Inl (Err ''quota'')))
       \<lparr> classify := (\<lambda>img. Inr (Some [\<lparr> className = Some ''hotdog, hot dog, red hot'',
                                           probability = JNum (Fin (9 / 10)) \<rparr>])),
         detect := (\<lambda>img. Inr (Some [\<lparr> det_class = Some ''pizza'', score = JNum (Fin (2 / 10)) \<rparr>,
                                     \<lparr> det_class = Some ''hot dog'', score = JNum (Fin (9 / 10)) \<rparr>])) \<rparr>"

definition sampleRequest :: request where
  "sampleRequest =
     \<lparr> req_file = Some ''img'', req_query = JUndefined, req_latitude = JStr ''12.9'',
       req_longitude = JStr ''77.6'' \<rparr>"


section \<open>Properties\<close>


subsection \<open>Sorting and ranking\<close>

lemma length_insertBy: "length (insertBy cmp x ys) = Suc (length ys)"
  by (induction ys) auto

lemma length_jsSort: "length (jsSort cmp xs) = length xs"
  by (induction xs) (auto simp: jsSort_def length_insertBy)



lemma mset_insertBy: "mset (insertBy cmp x ys) = add_mset x (mset ys)"
  by (induction ys) auto

lemma mset_jsSort: "mset (jsSort cmp xs) = mset xs"
  by (induction xs) (auto simp: jsSort_def mset_insertBy)

lemma length_ranked: "length (ranked es) = min 3 (length es)"
  by (simp add: ranked_def Let_def length_jsSort)

lemma map_rank_zip:
  "map rank (map (\<lambda>(idx, item). toRecommendation idx item) (zip [k..<k + length xs] xs))
   = [Suc k..<Suc k + length xs]"
proof (induction xs arbitrary: k)
  case Nil
  then show ?case by simp
next
  case (Cons x xs)
  have "[k..<k + length (x # xs)] = k # [Suc k..<Suc k + length xs]"
    by (simp add: upt_rec)
  moreover have "[Suc k..<Suc k + length (x # xs)] = Suc k # [Suc (Suc k)..<Suc (Suc k) + length xs]"
    by (simp add: upt_rec)
  ultimately show ?case using Cons.IH [of "Suc k"]
    by (simp add: toRecommendation_def)
qed

lemma ranks_ranked: "map rank (ranked es) = [1..<Suc (length (ranked es))]"
  using map_rank_zip [of 0 "take 3 (jsSort rankCompare es)"]
  by (simp add: ranked_def Let_def)

text \<open>
  C2. For every list of candidate products, the deterministic ranking returns
  \<open>min 3 n\<close> recommendations for \<open>n\<close> candidates, and their ranks are \<open>1, 2, \<dots>\<close> up to
  that length, in this order: contiguous, increasing, starting at 1.
\<close>

theorem deterministic_length_and_ranks:
  "length (recommendations (deterministic s2n n2s query latitude longitude products))
     = min 3 (length products)
   \<and> map rank (recommendations (deterministic s2n n2s query latitude longitude products))
     = [1..<Suc (min 3 (length products))]"
  using ranks_ranked [of "map (enrich s2n latitude longitude) products"]
  by (simp add: deterministic_def Let_def length_ranked)


subsection \<open>The distance\<close>







lemma distanceKm_same:
  "distanceKm s2n (JNum (Fin x)) (JNum (Fin y)) (JNum (Fin x)) (JNum (Fin y)) = Fin 0"
  by (simp add: distanceKm_def toRad_def atan2_def)

lemma distanceKm_nullish:
  "isNullish lat1 \<or> isNullish lon1 \<or> isNullish lat2 \<or> isNullish lon2
   \<Longrightarrow> distanceKm s2n lat1 lon1 lat2 lon2 = PInf"
  by (auto simp: distanceKm_def)

lemma dot_bound:
  fixes sp sq cp cq u :: real
  assumes "sp\<^sup>2 + cp\<^sup>2 = 1" "sq\<^sup>2 + cq\<^sup>2 = 1" "\<bar>u\<bar> \<le> 1"
  shows "\<bar>sp * sq + cp * cq * u\<bar> \<le> 1"
proof -
  have 1: "2 * \<bar>sp\<bar> * \<bar>sq\<bar> \<le> sp\<^sup>2 + sq\<^sup>2"
    using sum_squares_bound [of "\<bar>sp\<bar>" "\<bar>sq\<bar>"] by simp
  have 2: "2 * \<bar>cp\<bar> * \<bar>cq\<bar> \<le> cp\<^sup>2 + cq\<^sup>2"
    using sum_squares_bound [of "\<bar>cp\<bar>" "\<bar>cq\<bar>"] by simp
  have 3: "\<bar>cp * cq * u\<bar> \<le> \<bar>cp\<bar> * \<bar>cq\<bar>"
    using assms(3) by (simp add: abs_mult mult_left_le)
  have "\<bar>sp * sq + cp * cq * u\<bar> \<le> \<bar>sp\<bar> * \<bar>sq\<bar> + \<bar>cp\<bar> * \<bar>cq\<bar>"
    using 3 abs_triangle_ineq [of "sp * sq" "cp * cq * u"] by (simp add: abs_mult)
  also have "\<dots> \<le> 1" using 1 2 assms(1,2) by linarith
  finally show ?thesis .
qed

lemma hav_range:
  fixes p q y :: real
  defines "a \<equiv> (sin ((q - p) / 2))\<^sup>2 + cos p * cos q * (sin y)\<^sup>2"
  shows "0 \<le> a \<and> a \<le> 1"
proof -
  have e: "2 * ((q - p) / 2) = q - p" by simp
  have s: "(sin ((q - p) / 2))\<^sup>2 = (1 - cos (q - p)) / 2"
    using cos_double_sin [of "(q - p) / 2", unfolded e] by simp
  have t: "(sin y)\<^sup>2 = (1 - cos (2 * y)) / 2"
    using cos_double_sin [of y] by simp
  have "a = (1 - (sin p * sin q + cos p * cos q * cos (2 * y))) / 2"
    unfolding a_def s t by (simp add: cos_diff field_simps)
  moreover have "\<bar>sin p * sin q + cos p * cos q * cos (2 * y)\<bar> \<le> 1"
    by (rule dot_bound) simp_all
  ultimately show ?thesis by (simp add: abs_le_iff)
qed

lemma haversineA_range: "0 \<le> haversineA la lo lb lob \<and> haversineA la lo lb lob \<le> 1"
proof -
  have eq: "(lb - la) * pi / 180 / 2 = (lb * pi / 180 - la * pi / 180) / 2"
    by (simp add: field_simps)
  have "haversineA la lo lb lob
      = (sin ((lb * pi / 180 - la * pi / 180) / 2))\<^sup>2
        + cos (la * pi / 180) * cos (lb * pi / 180) * (sin ((lob - lo) * pi / 180 / 2))\<^sup>2"
    by (simp only: haversineA_def eq)
  then show ?thesis
    using hav_range [of "lb * pi / 180" "la * pi / 180" "(lob - lo) * pi / 180 / 2"]
    by (simp only:)
qed


lemma atan2_nonneg: "0 \<le> y \<Longrightarrow> 0 \<le> x \<Longrightarrow> 0 \<le> atan2 y x \<and> atan2 y x \<le> pi / 2"
  unfolding atan2_def
  using arctan_ubound [of "y / x"]
  by (auto simp: zero_le_arctan_iff)

lemma haversineKm_range: "0 \<le> haversineKm la lo lb lob \<and> haversineKm la lo lb lob \<le> 6371 * pi"
  using atan2_nonneg [of "sqrt (haversineA la lo lb lob)" "sqrt (1 - haversineA la lo lb lob)"]
    haversineA_range [of la lo lb lob]
  by (simp add: haversineKm_def)


subsection \<open>The comparator and the order of the ranking\<close>

lemma isPos_jsub: "x \<noteq> NaN \<Longrightarrow> y \<noteq> NaN \<Longrightarrow> isPos (jsub x y) = jless y x"
  by (cases x; cases y) auto

lemma jsub_zero: "x \<noteq> NaN \<Longrightarrow> y \<noteq> NaN \<Longrightarrow> (jsub x y = Fin 0) = (x = y \<and> isFinite x)"
  by (cases x; cases y) auto











text \<open>
  C1. The ranking sorts by distance, then price, then rating descending. On the code the
  two tie-breaks are lost between infinite keys: the difference of two infinite distances
  (or prices) is NaN, which the comparator returns and the sort reads as a tie. Two
  candidates without coordinates keep their input order although the second is cheaper,
  and two candidates of one shop without a price keep theirs although the second is
  rated higher.
\<close>

theorem tie_between_infinite_keys_keeps_input_order:
  "map (\<lambda>r. (product_name r, price r, rating r, distance_km r))
     (recommendations (deterministic s2n n2s (JStr ''milk'') (JNum (Fin 12)) (JNum (Fin 77))
       [sampleProduct ''A'' (JNum (Fin 200)) (JNum (Fin 4)) (Some (sampleShop JNull JNull)),
        sampleProduct ''B'' (JNum (Fin 100)) (JNum (Fin 4)) (Some (sampleShop JNull JNull))]))
   = [(JStr ''A'', JNum (Fin 200), JNum (Fin 4), JNull), (JStr ''B'', JNum (Fin 100), JNum (Fin 4), JNull)]
   \<and> map (\<lambda>r. (product_name r, price r, rating r, distance_km r))
     (recommendations (deterministic s2n n2s (JStr ''milk'') (JNum (Fin 12)) (JNum (Fin 77))
       [sampleProduct ''C'' JNull (JNum (Fin 3)) (Some (sampleShop (JNum (Fin 12)) (JNum (Fin 77)))),
        sampleProduct ''D'' JNull (JNum (Fin 5)) (Some (sampleShop (JNum (Fin 12)) (JNum (Fin 77))))]))
   = [(JStr ''C'', JNull, JNum (Fin 3), JNum (Fin 0)), (JStr ''D'', JNull, JNum (Fin 5), JNum (Fin 0))]
   \<and> rankCompare (sampleCandidate ''A'' PInf (Fin 200) (Fin 4)) (sampleCandidate ''B'' PInf (Fin 100) (Fin 4))
       = NaN
   \<and> rankCompare (sampleCandidate ''C'' (Fin 0) PInf (Fin 3)) (sampleCandidate ''D'' (Fin 0) PInf (Fin 5))
       = NaN"
  by (simp add: deterministic_def ranked_def enrich_def sampleProduct_def sampleShop_def
      sampleCandidate_def distanceKm_same distanceKm_nullish jsSort_def rankCompare_def
      toRecommendation_def toFixed2_def)




subsection \<open>findProducts and the text search\<close>

lemma rankProducts_local:
  "fst (rankProducts (w\<lparr>USE_LOCAL_RANKING := True\<rparr>) query latitude longitude products)
   = Inr (Result (deterministic (StringToNumber w) (NumberToString w) query latitude longitude products))"
  by (simp add: rankProducts_def)

lemma rankProducts_aiFails:
  "aiFails w query products \<Longrightarrow>
   fst (rankProducts w query latitude longitude products)
   = Inr (Result (deterministic (StringToNumber w) (NumberToString w) query latitude longitude products))"
  by (auto simp: rankProducts_def aiFails_def Let_def split: sum.splits option.splits)

lemma productsOfShops_aiFails:
  assumes "\<forall>ps. aiFails w query ps"
  shows "fst (productsOfShops w query latitude longitude shops)
       = fst (productsOfShops (w\<lparr>USE_LOCAL_RANKING := True\<rparr>) query latitude longitude shops)"
proof -
  have "fst (rankProducts w query latitude longitude ps)
      = fst (rankProducts (w\<lparr>USE_LOCAL_RANKING := True\<rparr>) query latitude longitude ps)" for ps
    using assms rankProducts_aiFails [of w query ps] rankProducts_local [of w query latitude longitude ps]
    by simp
  then show ?thesis
    by (simp add: productsOfShops_def Let_def case_prod_beta split: option.splits)
qed

text \<open>
  C3. When the model call of \<^verbatim>\<open>findProducts\<close> fails (it throws, or its reply does not
  parse after the code fences are stripped), the ranking step returns the result of the
  deterministic ranking of the same products, never an error; and when it fails whatever
  the products, \<^verbatim>\<open>findProducts\<close> returns what it returns with local ranking configured.
\<close>

theorem ai_failure_falls_through_to_deterministic:
  "(aiFails w query products \<longrightarrow>
      fst (rankProducts w query latitude longitude products)
      = Inr (Result (deterministic (StringToNumber w) (NumberToString w) query latitude longitude products)))
   \<and> ((\<forall>ps. aiFails w query ps) \<longrightarrow>
      fst (findProducts w query latitude longitude)
      = fst (findProducts (w\<lparr>USE_LOCAL_RANKING := True\<rparr>) query latitude longitude))"
proof -
  have "fst (findProducts w query latitude longitude)
      = fst (findProducts (w\<lparr>USE_LOCAL_RANKING := True\<rparr>) query latitude longitude)"
    if "\<forall>ps. aiFails w query ps"
    using productsOfShops_aiFails [OF that]
    by (simp add: findProducts_def Let_def case_prod_beta split: option.splits)
  then show ?thesis using rankProducts_aiFails by blast
qed

text \<open>
  C9. When the shop lookup reports no error and no shops (null or an empty array),
  \<^verbatim>\<open>findProducts\<close> returns the summary "No shops found near your location." with no
  recommendations, and the shop lookup is the only collaborator call it makes.
\<close>

theorem no_shops_returns_early:
  "error (nearby_shops w latitude longitude) = None
   \<and> (data (nearby_shops w latitude longitude) = None \<or> data (nearby_shops w latitude longitude) = Some [])
   \<longrightarrow> findProducts w query latitude longitude
       = (Inr (Result \<lparr> summary = ''No shops found near your location.'', recommendations = [] \<rparr>),
          [NearbyShops latitude longitude])"
  by (auto simp: findProducts_def noShops_def Let_def)


theorem ai_failure_falls_through_to_deterministic_witness:
  "aiFails (sampleWorld [sampleProduct ''Veg Burger'' (JNum (Fin 120)) (JNum (Fin 4)) None] (Inr ''Sorry, no JSON''))
      (JStr ''burger'') [sampleProduct ''Veg Burger'' (JNum (Fin 120)) (JNum (Fin 4)) None]
   \<and> (\<forall>ps. aiFails (sampleWorld [sampleProduct ''Veg Burger'' (JNum (Fin 120)) (JNum (Fin 4)) None]
                 (Inr ''Sorry, no JSON'')) (JStr ''burger'') ps)
   \<and> fst (findProducts (sampleWorld [sampleProduct ''Veg Burger'' (JNum (Fin 120)) (JNum (Fin 4)) None]
                 (Inr ''Sorry, no JSON'')) (JStr ''burger'') (JNum (Fin 12)) (JNum (Fin 77)))
     = fst (findProducts ((sampleWorld [sampleProduct ''Veg Burger'' (JNum (Fin 120)) (JNum (Fin 4)) None]
                 (Inr ''Sorry, no JSON''))\<lparr>USE_LOCAL_RANKING := True\<rparr>) (JStr ''burger'') (JNum (Fin 12)) (JNum (Fin 77)))
   \<and> fst (rankProducts (sampleWorld [sampleProduct ''Veg Burger'' (JNum (Fin 120)) (JNum (Fin 4)) None]
                 (Inr ''Sorry, no JSON'')) (JStr ''burger'') (JNum (Fin 12)) (JNum (Fin 77))
              [sampleProduct ''Veg Burger'' (JNum (Fin 120)) (JNum (Fin 4)) None])
     = Inr (Result (deterministic (\<lambda>s. NaN) (\<lambda>n. ''0'') (JStr ''burger'') (JNum (Fin 12)) (JNum (Fin 77))
              [sampleProduct ''Veg Burger'' (JNum (Fin 120)) (JNum (Fin 4)) None]))"
  using ai_failure_falls_through_to_deterministic
    [of "sampleWorld [sampleProduct ''Veg Burger'' (JNum (Fin 120)) (JNum (Fin 4)) None] (Inr ''Sorry, no JSON'')"
        "JStr ''burger''" "[sampleProduct ''Veg Burger'' (JNum (Fin 120)) (JNum (Fin 4)) None]"
        "JNum (Fin 12)" "JNum (Fin 77)"]
  by (simp add: aiFails_def sampleWorld_def cleanedText_def fence_def trim_def isSpace_def)

theorem no_shops_returns_early_witness:
  "error (nearby_shops ((sampleWorld [] (Inl (Err ''quota'')))
            \<lparr>nearby_shops := \<lambda>lat lon. \<lparr> data = Some [], error = None \<rparr>\<rparr>) (JNum (Fin 12)) (JNum (Fin 77))) = None
   \<and> data (nearby_shops ((sampleWorld [] (Inl (Err ''quota'')))
            \<lparr>nearby_shops := \<lambda>lat lon. \<lparr> data = Some [], error = None \<rparr>\<rparr>) (JNum (Fin 12)) (JNum (Fin 77))) = Some []
   \<and> findProducts ((sampleWorld [] (Inl (Err ''quota'')))
            \<lparr>nearby_shops := \<lambda>lat lon. \<lparr> data = Some [], error = None \<rparr>\<rparr>)
         (JStr ''burger'') (JNum (Fin 12)) (JNum (Fin 77))
       = (Inr (Result \<lparr> summary = ''No shops found near your location.'', recommendations = [] \<rparr>),
          [NearbyShops (JNum (Fin 12)) (JNum (Fin 77))])"
  using no_shops_returns_early
    [of "(sampleWorld [] (Inl (Err ''quota'')))\<lparr>nearby_shops := \<lambda>lat lon. \<lparr> data = Some [], error = None \<rparr>\<rparr>"
        "JNum (Fin 12)" "JNum (Fin 77)" "JStr ''burger''"]
  by (simp add: sampleWorld_def)

text \<open>
  C10. The required inputs are checked by truthiness: a latitude or a longitude that is
  the number 0, and for the text search a query that is the empty string, give the
  status 400 with the missing-input message and no collaborator call, the very response
  of the same request with the field absent.
\<close>

theorem falsy_required_inputs_rejected:
  "((req_latitude req = JNum (Fin 0) \<or> req_longitude req = JNum (Fin 0) \<or> req_query req = JStr [])
      \<longrightarrow> aiSearch w req
          = (\<lparr> status = 400, payload = ErrorBody ''Query, latitude, and longitude are required.'' \<rparr>, []))
   \<and> (req_latitude req = JNum (Fin 0) \<longrightarrow> aiSearch w req = aiSearch w (req\<lparr>req_latitude := JUndefined\<rparr>))
   \<and> (req_longitude req = JNum (Fin 0) \<longrightarrow> aiSearch w req = aiSearch w (req\<lparr>req_longitude := JUndefined\<rparr>))
   \<and> (req_query req = JStr [] \<longrightarrow> aiSearch w req = aiSearch w (req\<lparr>req_query := JUndefined\<rparr>))
   \<and> ((req_latitude req = JNum (Fin 0) \<or> req_longitude req = JNum (Fin 0))
      \<longrightarrow> status (fst (searchByImage w req)) = 400 \<and> snd (searchByImage w req) = [])
   \<and> ((req_latitude req = JNum (Fin 0) \<or> req_longitude req = JNum (Fin 0)) \<and> req_file req = Some img
      \<longrightarrow> searchByImage w req
          = (\<lparr> status = 400, payload = ErrorBody ''latitude and longitude are required.'' \<rparr>, []))
   \<and> (req_latitude req = JNum (Fin 0)
      \<longrightarrow> searchByImage w req = searchByImage w (req\<lparr>req_latitude := JUndefined\<rparr>))
   \<and> (req_longitude req = JNum (Fin 0)
      \<longrightarrow> searchByImage w req = searchByImage w (req\<lparr>req_longitude := JUndefined\<rparr>))"
  by (auto simp: aiSearch_def searchByImage_def Let_def split: option.splits)

theorem falsy_required_inputs_rejected_witness:
  "req_latitude \<lparr> req_file = Some ''img'', req_query = JStr ''burger'', req_latitude = JNum (Fin 0),
                   req_longitude = JNum (Fin 77) \<rparr> = JNum (Fin 0)
   \<and> aiSearch (sampleWorld [] (Inl (Err ''quota'')))
        \<lparr> req_file = Some ''img'', req_query = JStr ''burger'', req_latitude = JNum (Fin 0),
          req_longitude = JNum (Fin 77) \<rparr>
      = (\<lparr> status = 400, payload = ErrorBody ''Query, latitude, and longitude are required.'' \<rparr>, [])
   \<and> searchByImage (sampleWorld [] (Inl (Err ''quota'')))
        \<lparr> req_file = Some ''img'', req_query = JStr ''burger'', req_latitude = JNum (Fin 0),
          req_longitude = JNum (Fin 77) \<rparr>
      = (\<lparr> status = 400, payload = ErrorBody ''latitude and longitude are required.'' \<rparr>, [])
   \<and> req_query \<lparr> req_file = None, req_query = JStr [], req_latitude = JNum (Fin 12),
                   req_longitude = JNum (Fin 77) \<rparr> = JStr []
   \<and> aiSearch (sampleWorld [] (Inl (Err ''quota'')))
        \<lparr> req_file = None, req_query = JStr [], req_latitude = JNum (Fin 12), req_longitude = JNum (Fin 77) \<rparr>
      = (\<lparr> status = 400, payload = ErrorBody ''Query, latitude, and longitude are required.'' \<rparr>, [])"
  using falsy_required_inputs_rejected
    [of "\<lparr> req_file = Some ''img'', req_query = JStr ''burger'', req_latitude = JNum (Fin 0),
           req_longitude = JNum (Fin 77) \<rparr>" "sampleWorld [] (Inl (Err ''quota''))" "''img''"]
    falsy_required_inputs_rejected
    [of "\<lparr> req_file = None, req_query = JStr [], req_latitude = JNum (Fin 12), req_longitude = JNum (Fin 77) \<rparr>"
        "sampleWorld [] (Inl (Err ''quota''))" "''img''"]
  by simp


subsection \<open>The market trend\<close>








text \<open>
  C5, amended. The rule of the fallback answers "BUY" when the trend is "Rising" and the
  internal price is a number other than 0 below the external price, else "SELL" when the
  trend is "Falling" and the internal price is a number other than 0 above the external
  price, else "HOLD"; the prices are passed through. "Stable" gives "HOLD" whatever the
  prices, (Rising, 90, 100) gives "BUY", (Falling, 110, 100) gives "SELL".
\<close>

theorem rule_fallback_verdict:
  "prediction (ruleFallback internalTrend internalPrice externalPrice)
     = (if internalTrend = ''Rising'' \<and> (\<exists>p. internalPrice = Some p \<and> p \<noteq> 0 \<and> p < externalPrice)
        then ''BUY''
        else if internalTrend = ''Falling'' \<and> (\<exists>p. internalPrice = Some p \<and> p \<noteq> 0 \<and> externalPrice < p)
        then ''SELL'' else ''HOLD'')
   \<and> internal_price (ruleFallback internalTrend internalPrice externalPrice) = internalPrice
   \<and> external_price (ruleFallback internalTrend internalPrice externalPrice) = externalPrice
   \<and> prediction (ruleFallback ''Stable'' internalPrice externalPrice) = ''HOLD''
   \<and> prediction (ruleFallback ''Rising'' (Some 90) 100) = ''BUY''
   \<and> prediction (ruleFallback ''Falling'' (Some 110) 100) = ''SELL''"
  by (cases internalPrice) (simp_all add: ruleFallback_def Let_def)

theorem rule_fallback_verdict_witness:
  "prediction (ruleFallback ''Rising'' (Some 90) 100) = ''BUY''
   \<and> prediction (ruleFallback ''Falling'' (Some 110) 100) = ''SELL''
   \<and> prediction (ruleFallback ''Rising'' (Some 120) 100) = ''HOLD''
   \<and> prediction (ruleFallback ''Insufficient Data'' None 100) = ''HOLD''"
  using rule_fallback_verdict [of "''Rising''" "Some 90" 100]
    rule_fallback_verdict [of "''Rising''" "Some 120" 100]
    rule_fallback_verdict [of "''Insufficient Data''" None 100]
  by simp

text \<open>
  C5 as stated fails at the internal price 0: the trend is "Rising", 0 is below the
  external price 100, and the verdict is "HOLD". The rows 0 and -10 reach it through
  the handler's fallback.
\<close>

theorem rising_at_zero_price_holds_counterexample:
  "prediction (ruleFallback ''Rising'' (Some 0) 100) = ''HOLD''
   \<and> (0 :: real) < 100
   \<and> analyzeTrend (Some [\<lparr>row_price = 0\<rparr>, \<lparr>row_price = - 10\<rparr>]) = (''Rising'', Some 0)
   \<and> prediction (trendFallback \<lparr> data = Some [\<lparr>row_price = 0\<rparr>, \<lparr>row_price = - 10\<rparr>], error = None \<rparr> 100)
       = ''HOLD''"
  by (simp add: ruleFallback_def trendFallback_def analyzeTrend_def)


subsection \<open>The image search\<close>

lemma mapLabelToQuery_not_empty: "mapLabelToQuery x \<noteq> Some []"
  by (simp add: mapLabelToQuery_def Let_def)

lemma cocoToQuery_not_empty: "cocoToQuery x \<noteq> Some []"
  by (simp add: cocoToQuery_def Let_def)

lemma firstLabel_not_empty: "firstLabel ps \<noteq> Some []"
  by (induction ps) (auto simp: mapLabelToQuery_not_empty split: option.splits)

lemma firstDetection_filter:
  "firstDetection ds = firstMapped (filter (\<lambda>d. \<not> lowScore (score d)) ds)"
  by (induction ds) (auto split: option.splits)

lemma firstMapped_not_empty: "firstMapped ds \<noteq> Some []"
  by (induction ds) (auto simp: cocoToQuery_not_empty split: option.splits)

lemma mapLabelToQuery_empty: "mapLabelToQuery (Some []) = None"
  by (simp add: mapLabelToQuery_def toLowerCase_def)

lemma mapLabelToQuery_None: "mapLabelToQuery None = None"
  by (simp add: mapLabelToQuery_def toLowerCase_def)

lemma top_then_loop:
  "(if noFood (mapLabelToQuery (Some (topLabel cp)))
    then firstLabel (case cp of None \<Rightarrow> [] | Some ps \<Rightarrow> ps)
    else mapLabelToQuery (Some (topLabel cp)))
   = firstLabel (case cp of None \<Rightarrow> [] | Some ps \<Rightarrow> ps)"
proof (cases cp)
  case None
  then show ?thesis by (simp add: topLabel_def mapLabelToQuery_empty noFood_def)
next
  case (Some ps)
  show ?thesis
  proof (cases ps)
    case Nil
    then show ?thesis using Some by (simp add: topLabel_def mapLabelToQuery_empty noFood_def)
  next
    case (Cons p rest)
    have "mapLabelToQuery (Some (topLabel cp)) = mapLabelToQuery (className p)"
      using Some Cons
      by (cases "className p") (simp_all add: topLabel_def mapLabelToQuery_empty mapLabelToQuery_None)
    then show ?thesis using Some Cons
      by (auto simp: noFood_def mapLabelToQuery_not_empty split: option.splits)
  qed
qed


lemma noFood_None: "noFood None"
  by (simp add: noFood_def)

lemma noFood_Some: "noFood (Some s) = (s = [])"
  by (simp add: noFood_def)

lemma noFood_firstLabel: "noFood (firstLabel ps) = (firstLabel ps = None)"
  by (simp add: noFood_def firstLabel_not_empty)

lemma noFood_firstMapped: "noFood (firstMapped ds) = (firstMapped ds = None)"
  by (simp add: noFood_def firstMapped_not_empty)

lemma localBody_classify_throws:
  "classify w img = Inl e \<Longrightarrow> snd (fst (localBody w img food0)) = (food0, [])"
  by (simp add: localBody_def)

lemma localBody_detect_throws:
  "classify w img = Inr cp \<Longrightarrow> detect w img = Inl e \<Longrightarrow>
   snd (fst (localBody w img food0))
   = (firstLabel (case cp of None \<Rightarrow> [] | Some ps \<Rightarrow> ps), case cp of None \<Rightarrow> [] | Some ps \<Rightarrow> ps)"
  by (simp add: localBody_def Let_def top_then_loop noFood_firstLabel)

lemma localBody_tiers:
  assumes "classify w img = Inr cp" "detect w img = Inr dp"
  shows "snd (fst (localBody w img food0))
   = (localTiers (case cp of None \<Rightarrow> [] | Some ps \<Rightarrow> ps) (case dp of None \<Rightarrow> [] | Some ds \<Rightarrow> ds),
      case cp of None \<Rightarrow> [] | Some ps \<Rightarrow> ps)"
proof -
  let ?preds = "case cp of None \<Rightarrow> [] | Some ps \<Rightarrow> ps"
  let ?dets = "case dp of None \<Rightarrow> [] | Some ds \<Rightarrow> ds"
  have body: "localBody w img food0
      = (if firstLabel ?preds \<noteq> None then ((None, firstLabel ?preds, ?preds), [ClassifyImage img])
         else if firstMapped (filter (\<lambda>d. \<not> lowScore (score d)) ?dets) = None
         then (case ?preds of
                 [] \<Rightarrow> ((None, None, ?preds), [ClassifyImage img, DetectObjects img])
               | p # rest \<Rightarrow>
                   (case className p of
                      None \<Rightarrow> ((Some (Err ''TypeError''), None, ?preds),
                                [ClassifyImage img, DetectObjects img])
                    | Some s \<Rightarrow> ((None, Some (trim (takeWhile (\<lambda>c. c \<noteq> CHR '','') s)), ?preds),
                                 [ClassifyImage img, DetectObjects img])))
         else ((None, firstMapped (filter (\<lambda>d. \<not> lowScore (score d)) ?dets), ?preds),
               [ClassifyImage img, DetectObjects img]))"
    using assms
    by (auto simp: localBody_def Let_def top_then_loop noFood_firstLabel firstDetection_filter
        noFood_firstMapped split: list.splits option.splits)
  show ?thesis
    unfolding body localTiers_def rawLabel_def
    by (simp split: option.splits list.splits)
qed

lemma resolveImage_vision_fails:
  assumes "\<not> geminiApiKey w \<or> (\<exists>e. generateVision w img = Inl e)"
  shows "fst (resolveImage w img) = Inr (snd (fst (localBody w img None)))"
  using assms
  by (auto simp: resolveImage_def noFood_def case_prod_beta)

lemma localBody_key: "localBody (w\<lparr>geminiApiKey := b\<rparr>) img food0 = localBody w img food0"
  by (auto simp: localBody_def Let_def split: sum.splits)

lemma rankProducts_key: "rankProducts (w\<lparr>geminiApiKey := b\<rparr>) q la lo ps = rankProducts w q la lo ps"
  by (simp add: rankProducts_def Let_def split: sum.splits option.splits)

lemma productsOfShops_key:
  "productsOfShops (w\<lparr>geminiApiKey := b\<rparr>) q la lo shops = productsOfShops w q la lo shops"
  by (simp add: productsOfShops_def rankProducts_key Let_def split: option.splits)

lemma findProducts_key: "findProducts (w\<lparr>geminiApiKey := b\<rparr>) q la lo = findProducts w q la lo"
  by (simp add: findProducts_def productsOfShops_key Let_def split: option.splits)

lemma searchByImage_vision_fails:
  assumes "\<not> geminiApiKey w \<or> (\<exists>e. generateVision w img = Inl e)" "req_file req = Some img"
  shows "fst (searchByImage w req) = fst (searchByImage (w\<lparr>geminiApiKey := False\<rparr>) req)"
proof -
  have "fst (resolveImage w img) = fst (resolveImage (w\<lparr>geminiApiKey := False\<rparr>) img)"
    using resolveImage_vision_fails [OF assms(1)]
      resolveImage_vision_fails [of "w\<lparr>geminiApiKey := False\<rparr>" img]
    by (simp add: localBody_key)
  then show ?thesis
    using assms(2)
    by (simp add: searchByImage_def Let_def findProducts_key case_prod_beta
        split: sum.splits prod.splits)
qed


text \<open>
  C7. When the vision tier is skipped for want of a key or throws, resolving the image
  still returns a result, never an error: no term and no predictions when the classifier
  throws; the first mapped label when the detector throws; otherwise the term of tiers 2
  to 4 as the specification words them, with the classifier's predictions. The response
  of the image search is then the response of the same request with the vision tier
  switched off. The detection tier passes over exactly the detections whose numeric score
  is below 0.3.
\<close>

theorem vision_failure_is_not_fatal:
  "(\<not> geminiApiKey w \<or> (\<exists>e. generateVision w img = Inl e) \<longrightarrow>
      (\<exists>food preds. fst (resolveImage w img) = Inr (food, preds))
      \<and> (\<forall>e. classify w img = Inl e \<longrightarrow> fst (resolveImage w img) = Inr (None, []))
      \<and> (\<forall>cp e. classify w img = Inr cp \<and> detect w img = Inl e \<longrightarrow>
            fst (resolveImage w img)
            = Inr (firstLabel (case cp of None \<Rightarrow> [] | Some ps \<Rightarrow> ps),
                   case cp of None \<Rightarrow> [] | Some ps \<Rightarrow> ps))
      \<and> (\<forall>cp dp. classify w img = Inr cp \<and> detect w img = Inr dp \<longrightarrow>
            fst (resolveImage w img)
            = Inr (localTiers (case cp of None \<Rightarrow> [] | Some ps \<Rightarrow> ps)
                              (case dp of None \<Rightarrow> [] | Some ds \<Rightarrow> ds),
                   case cp of None \<Rightarrow> [] | Some ps \<Rightarrow> ps))
      \<and> (req_file req = Some img \<longrightarrow>
            fst (searchByImage w req) = fst (searchByImage (w\<lparr>geminiApiKey := False\<rparr>) req)))
   \<and> firstDetection ds = firstMapped (filter (\<lambda>d. \<not> lowScore (score d)) ds)
   \<and> lowScore (JNum (Fin s)) = (s < 3 / 10)"
proof -
  have "(\<exists>food preds. fst (resolveImage w img) = Inr (food, preds))
      \<and> (\<forall>e. classify w img = Inl e \<longrightarrow> fst (resolveImage w img) = Inr (None, []))
      \<and> (\<forall>cp e. classify w img = Inr cp \<and> detect w img = Inl e \<longrightarrow>
            fst (resolveImage w img)
            = Inr (firstLabel (case cp of None \<Rightarrow> [] | Some ps \<Rightarrow> ps),
                   case cp of None \<Rightarrow> [] | Some ps \<Rightarrow> ps))
      \<and> (\<forall>cp dp. classify w img = Inr cp \<and> detect w img = Inr dp \<longrightarrow>
            fst (resolveImage w img)
            = Inr (localTiers (case cp of None \<Rightarrow> [] | Some ps \<Rightarrow> ps)
                              (case dp of None \<Rightarrow> [] | Some ds \<Rightarrow> ds),
                   case cp of None \<Rightarrow> [] | Some ps \<Rightarrow> ps))
      \<and> (req_file req = Some img \<longrightarrow>
            fst (searchByImage w req) = fst (searchByImage (w\<lparr>geminiApiKey := False\<rparr>) req))"
    if v: "\<not> geminiApiKey w \<or> (\<exists>e. generateVision w img = Inl e)"
  proof -
    note r = resolveImage_vision_fails [OF v]
    have 1: "\<exists>food preds. fst (resolveImage w img) = Inr (food, preds)"
      unfolding r by (metis surj_pair)
    have 2: "\<forall>e. classify w img = Inl e \<longrightarrow> fst (resolveImage w img) = Inr (None, [])"
      unfolding r using localBody_classify_throws [of w img _ None] by simp
    have 3: "\<forall>cp e. classify w img = Inr cp \<and> detect w img = Inl e \<longrightarrow>
            fst (resolveImage w img)
            = Inr (firstLabel (case cp of None \<Rightarrow> [] | Some ps \<Rightarrow> ps),
                   case cp of None \<Rightarrow> [] | Some ps \<Rightarrow> ps)"
      unfolding r using localBody_detect_throws [of w img _ _ None] by simp
    have 4: "\<forall>cp dp. classify w img = Inr cp \<and> detect w img = Inr dp \<longrightarrow>
            fst (resolveImage w img)
            = Inr (localTiers (case cp of None \<Rightarrow> [] | Some ps \<Rightarrow> ps)
                              (case dp of None \<Rightarrow> [] | Some ds \<Rightarrow> ds),
                   case cp of None \<Rightarrow> [] | Some ps \<Rightarrow> ps)"
      unfolding r using localBody_tiers [of w img _ _ None] by simp
    have 5: "req_file req = Some img \<longrightarrow>
            fst (searchByImage w req) = fst (searchByImage (w\<lparr>geminiApiKey := False\<rparr>) req)"
      using searchByImage_vision_fails [OF v] by simp
    show ?thesis using 1 2 3 4 5 by (intro conjI)
  qed
  moreover have "lowScore (JNum (Fin s)) = (s < 3 / 10)" by simp
  ultimately show ?thesis using firstDetection_filter [of ds] by blast
qed


theorem vision_failure_is_not_fatal_witness:
  "generateVision hotDogWorld ''img'' = Inl (Err ''quota'')
   \<and> fst (resolveImage hotDogWorld ''img'')
       = Inr (Some ''Burger'', [\<lparr> className = Some ''hotdog, hot dog, red hot'',
                                   probability = JNum (Fin (9 / 10)) \<rparr>])
   \<and> req_file sampleRequest = Some ''img''
   \<and> fst (searchByImage hotDogWorld sampleRequest)
       = fst (searchByImage (hotDogWorld\<lparr>geminiApiKey := False\<rparr>) sampleRequest)"
  using vision_failure_is_not_fatal [of hotDogWorld "''img''" sampleRequest "[]" 0]
  by (simp add: hotDogWorld_def sampleWorld_def sampleRequest_def localTiers_def
      mapLabelToQuery_def cocoToQuery_def toLowerCase_def rawLabel_def)

lemma findProducts_empty_query_calls:
  "ProductsQuery ids pat \<in> set (snd (findProducts w (JStr []) latitude longitude)) \<Longrightarrow> pat = None"
  by (auto simp: findProducts_def productsOfShops_def rankProducts_def hasQuery_def Let_def
      split: option.splits sum.splits if_splits)

text \<open>
  C8, amended. When no tier produces a term, the caller does not report an error: it
  searches with the empty query, so the product query carries no name filter, and answers
  200 with a null detected label. The fixed term "Burger" is searched only when that
  search throws, once, and its failure gives the status 500.
\<close>

theorem unresolved_image_searches_without_name_filter:
  "req_file req = Some img \<and> truthy (req_latitude req) \<and> truthy (req_longitude req)
     \<and> fst (resolveImage w img) = Inr (food, preds) \<and> noFood food
   \<longrightarrow>
     (\<forall>r cs. findProducts w (JStr []) (req_latitude req) (req_longitude req) = (Inr r, cs) \<longrightarrow>
        searchByImage w req
        = (\<lparr> status = 200, payload = ImageBody JNull preds r \<rparr>, snd (resolveImage w img) @ cs))
     \<and> (\<forall>ids pat. ProductsQuery ids pat
            \<in> set (snd (findProducts w (JStr []) (req_latitude req) (req_longitude req)))
          \<longrightarrow> pat = None)
     \<and> (\<forall>e cs. findProducts w (JStr []) (req_latitude req) (req_longitude req) = (Inl e, cs) \<longrightarrow>
          searchByImage w req
          = (case findProducts w (JStr ''Burger'') (req_latitude req) (req_longitude req) of
               (Inr r, cs3) \<Rightarrow>
                 (\<lparr> status = 200, payload = SearchBody r \<rparr>, snd (resolveImage w img) @ cs @ cs3)
             | (Inl e', cs3) \<Rightarrow>
                 (\<lparr> status = 500,
                    payload = ErrorBody ''An internal error occurred during image search.'' \<rparr>,
                  snd (resolveImage w img) @ cs @ cs3)))"
proof -
  have main: "searchByImage w req
      = (case findProducts w (JStr []) (req_latitude req) (req_longitude req) of
           (Inr results, log2) \<Rightarrow>
             (\<lparr> status = 200, payload = ImageBody JNull preds results \<rparr>,
              snd (resolveImage w img) @ log2)
         | (Inl e, log2) \<Rightarrow>
             (case findProducts w (JStr ''Burger'') (req_latitude req) (req_longitude req) of
                (Inr results, log3) \<Rightarrow>
                  (\<lparr> status = 200, payload = SearchBody results \<rparr>,
                   snd (resolveImage w img) @ log2 @ log3)
              | (Inl e', log3) \<Rightarrow>
                  (\<lparr> status = 500,
                     payload = ErrorBody ''An internal error occurred during image search.'' \<rparr>,
                   snd (resolveImage w img) @ log2 @ log3)))"
    if h: "req_file req = Some img" "truthy (req_latitude req)" "truthy (req_longitude req)"
      "fst (resolveImage w img) = Inr (food, preds)" "noFood food"
  proof -
    have t: "(case food of None \<Rightarrow> [] | Some s \<Rightarrow> s) = []" "detectedLabel food = JNull"
      using h(5) by (auto simp: noFood_def detectedLabel_def)
    obtain log1 where r: "resolveImage w img = (Inr (food, preds), log1)"
      using h(4) by (cases "resolveImage w img") auto
    show ?thesis
      using h(1,2,3) by (simp add: searchByImage_def Let_def r t split: prod.splits sum.splits)
  qed
  show ?thesis
    using findProducts_empty_query_calls [of _ _ w "req_latitude req" "req_longitude req"] main
    by auto
qed

theorem unresolved_image_searches_without_name_filter_witness:
  "req_file sampleRequest = Some ''img'' \<and> truthy (req_latitude sampleRequest)
   \<and> truthy (req_longitude sampleRequest)
   \<and> fst (resolveImage (sampleWorld sampleMenu (Inl (Err ''quota''))) ''img'') = Inr (None, [])
   \<and> noFood None
   \<and> searchByImage (sampleWorld sampleMenu (Inl (Err ''quota''))) sampleRequest
      = (\<lparr> status = 200,
           payload = ImageBody JNull []
             (Result (deterministic (\<lambda>s. NaN) (\<lambda>n. ''0'') (JStr []) (JStr ''12.9'') (JStr ''77.6'') sampleMenu)) \<rparr>,
         [VisionGenerate ''img'', ClassifyImage ''img'', NearbyShops (JStr ''12.9'') (JStr ''77.6''),
          ProductsQuery [JNum (Fin 1)] None, GenerateContent (JStr []) sampleMenu])"
  using unresolved_image_searches_without_name_filter
    [of sampleRequest "''img''" "sampleWorld sampleMenu (Inl (Err ''quota''))" None "[]"]
  by (simp add: sampleWorld_def sampleRequest_def sampleMenu_def resolveImage_def localBody_def
      noFood_def findProducts_def productsOfShops_def rankProducts_def hasQuery_def Let_def)

text \<open>
  C8 as stated fails: with every tier failing, one shop in range and one product, the
  handler answers 200 after a product query without name filter; no query for "Burger"
  is made.
\<close>

theorem unresolved_image_is_not_searched_as_burger_counterexample:
  "fst (resolveImage (sampleWorld sampleMenu (Inl (Err ''quota''))) ''img'') = Inr (None, [])
   \<and> status (fst (searchByImage (sampleWorld sampleMenu (Inl (Err ''quota''))) sampleRequest)) = 200
   \<and> snd (searchByImage (sampleWorld sampleMenu (Inl (Err ''quota''))) sampleRequest)
      = [VisionGenerate ''img'', ClassifyImage ''img'', NearbyShops (JStr ''12.9'') (JStr ''77.6''),
         ProductsQuery [JNum (Fin 1)] None, GenerateContent (JStr []) sampleMenu]
   \<and> ProductsQuery [JNum (Fin 1)] (Some ''%Burger%'')
      \<notin> set (snd (searchByImage (sampleWorld sampleMenu (Inl (Err ''quota''))) sampleRequest))"
  by (simp add: sampleWorld_def sampleRequest_def sampleMenu_def resolveImage_def localBody_def
      noFood_def searchByImage_def findProducts_def productsOfShops_def rankProducts_def
      hasQuery_def Let_def)


subsection \<open>The market-trend handler\<close>

text \<open>
  The handler answers 200 in every case: with the parsed reply of the model, or, when the
  first read fails, the model call throws or its reply does not parse, with the verdict
  of the rule on the second read.
\<close>

lemma marketTrend_status: "status (marketTrend parse productName pricesR rnd reply pricesR' rnd') = 200"
  by (simp add: marketTrend_def Let_def split: option.splits sum.splits)

lemma marketTrend_falls_back:
  "error pricesR \<noteq> None \<or> (\<exists>e. reply = Inl e) \<or> (\<exists>text. reply = Inr text \<and> parse (cleanedText text) = None)
   \<Longrightarrow> payload (marketTrend parse productName pricesR rnd reply pricesR' rnd')
       = TrendBody (trendFallback pricesR' (getOrSimulateExternalPrice productName rnd'))"
  by (auto simp: marketTrend_def Let_def split: option.splits sum.splits)

end
